theory Spec2Isabelle
  imports Complex_Main "HOL-Library.Signed_Division"
begin

section \<open>Thread-private accumulators of USER-OMP (thr\_omp.cpp)\<close>

text \<open>
  The embedding follows \<^verbatim>\<open>src/USER-OMP/thr_omp.cpp\<close>. A C \<^verbatim>\<open>double\<close> is a
  \<^typ>\<open>real\<close>: rounding is not modelled, every sum below is the exact one. Counts and
  array indices are natural numbers where the code indexes arrays with them, and
  unbounded integers in the arithmetic of \<^verbatim>\<open>loop_setup_thr\<close>. Flags (C ints tested
  for being nonzero) are booleans. An array is a list; an access outside of it, which is
  undefined behaviour in C++, makes the operation return \<^term>\<open>None\<close>. The overflow of a
  32-bit int is modelled where the code multiplies counts of atoms
  (\<^verbatim>\<open>memory_usage_thr\<close>), and not in the index arithmetic, whose values are bounded by
  the size of an allocated array.
\<close>

subsection \<open>Arrays with checked indices, loops\<close>

text \<open>\<^verbatim>\<open>a[i] = f(a[i])\<close>, where \<open>f\<close> may itself index into the element.\<close>

definition modify :: "nat \<Rightarrow> ('a \<Rightarrow> 'a option) \<Rightarrow> 'a list \<Rightarrow> 'a list option" where
  "modify i f xs =
     (if i < length xs
      then (case f (xs ! i) of None \<Rightarrow> None | Some y \<Rightarrow> Some (xs[i := y]))
      else None)"


text \<open>\<^verbatim>\<open>a[i] = v\<close> and \<^verbatim>\<open>a[i] += d\<close> on doubles.\<close>

definition store :: "real \<Rightarrow> real \<Rightarrow> real option" where
  "store v x = Some v"


text \<open>A \<^verbatim>\<open>for\<close> loop whose counter runs through \<open>ks\<close>, stopping at the first failure.\<close>

fun loop :: "('k \<Rightarrow> 's \<Rightarrow> 's option) \<Rightarrow> 'k list \<Rightarrow> 's \<Rightarrow> 's option" where
  "loop body [] s = Some s"
| "loop body (k # ks) s = (case body k s of None \<Rightarrow> None | Some s' \<Rightarrow> loop body ks s')"

subsection \<open>The collaborators and the object\<close>

text \<open>The fields of \<^verbatim>\<open>lmp->comm\<close>, \<^verbatim>\<open>lmp->atom\<close> and \<^verbatim>\<open>lmp->force\<close> that the class reads.\<close>

record lammps =
  nthreads :: nat
  nmax :: nat
  nlocal :: nat
  nghost :: nat
  newton :: bool
  newton_bond :: bool

text \<open>
  Modelled from the spec: the enumeration of the styles is declared in \<^verbatim>\<open>thr_omp.h\<close>,
  which is not among the sources. The spec knows two kinds of interaction, pairwise and
  bonded, and the \<^verbatim>\<open>switch\<close> of \<^verbatim>\<open>ev_setup_thr\<close> has these two cases and no default.
\<close>

datatype thr_style_t = PAIR | DIHEDRAL

record ThrOMP =
  thr_style :: thr_style_t
  eng_vdwl_thr :: "real list"
  eng_coul_thr :: "real list"
  eng_bond_thr :: "real list"
  virial_thr :: "real list list"
  maxeatom_thr :: nat
  maxvatom_thr :: nat
  eatom_thr :: "real list list"
  vatom_thr :: "real list list list"

text \<open>
  Modelled from the spec: \<^verbatim>\<open>memory->create\<close> and \<^verbatim>\<open>memory->grow\<close> of
  \<^verbatim>\<open>memory.h\<close> are not among the sources. The spec treats them as a plain service that
  hands out an array of the extents asked for; what the fresh array holds is not
  specified, so the parameter \<open>mem\<close> gives the contents found at each position.
\<close>

definition create1 :: "(nat \<Rightarrow> nat \<Rightarrow> nat \<Rightarrow> real) \<Rightarrow> nat \<Rightarrow> real list" where
  "create1 mem n1 = map (\<lambda>t. mem t 0 0) [0..<n1]"

definition grow2 :: "(nat \<Rightarrow> nat \<Rightarrow> nat \<Rightarrow> real) \<Rightarrow> nat \<Rightarrow> nat \<Rightarrow> real list list" where
  "grow2 mem n1 n2 = map (\<lambda>t. map (\<lambda>i. mem t i 0) [0..<n2]) [0..<n1]"

definition grow3 :: "(nat \<Rightarrow> nat \<Rightarrow> nat \<Rightarrow> real) \<Rightarrow> nat \<Rightarrow> nat \<Rightarrow> nat \<Rightarrow> real list list list" where
  "grow3 mem n1 n2 n3 = map (\<lambda>t. map (\<lambda>i. map (\<lambda>k. mem t i k) [0..<n3]) [0..<n2]) [0..<n1]"

text \<open>The constructor: fixed-size storage per thread, no per-atom storage yet.\<close>

definition ThrOMP_new :: "(nat \<Rightarrow> nat \<Rightarrow> nat \<Rightarrow> real) \<Rightarrow> lammps \<Rightarrow> thr_style_t \<Rightarrow> ThrOMP" where
  "ThrOMP_new mem lmp style =
     \<lparr>thr_style = style,
      eng_vdwl_thr = create1 mem (nthreads lmp),
      eng_coul_thr = create1 mem (nthreads lmp),
      eng_bond_thr = create1 mem (nthreads lmp),
      virial_thr = grow2 mem (nthreads lmp) 6,
      maxeatom_thr = 0,
      maxvatom_thr = 0,
      eatom_thr = [],
      vatom_thr = []\<rparr>"

subsection \<open>\<^verbatim>\<open>loop_setup_thr\<close>\<close>



subsection \<open>\<^verbatim>\<open>memory_usage_thr\<close>\<close>

text \<open>
  \<^verbatim>\<open>sizeof(double)\<close>. The products of ints are computed in 32-bit signed arithmetic
  before the factor of type \<^verbatim>\<open>size_t\<close> widens them; an overflow there is undefined
  behaviour.
\<close>

definition sizeof_double :: nat where
  "sizeof_double = 8"

definition int_mul :: "nat \<Rightarrow> nat \<Rightarrow> nat option" where
  "int_mul a b = (if a * b < 2 ^ 31 then Some (a * b) else None)"

definition memory_usage_thr :: "lammps \<Rightarrow> ThrOMP \<Rightarrow> real option" where
  "memory_usage_thr lmp s =
     (case int_mul (nthreads lmp) (3 + 7) of None \<Rightarrow> None | Some a \<Rightarrow>
      case int_mul (nthreads lmp) (maxeatom_thr s) of None \<Rightarrow> None | Some b \<Rightarrow>
      case int_mul (nthreads lmp) (maxvatom_thr s) of None \<Rightarrow> None | Some c \<Rightarrow>
      case int_mul c 6 of None \<Rightarrow> None | Some d \<Rightarrow>
        Some (real (a * sizeof_double) + real (b * sizeof_double) + real (d * sizeof_double)))"

subsection \<open>Statements on the object\<close>

text \<open>\<^verbatim>\<open>if (b) stmt\<close>, and a sequence of statements.\<close>

definition if_then :: "bool \<Rightarrow> ('s \<Rightarrow> 's option) \<Rightarrow> 's \<Rightarrow> 's option" where
  "if_then b stmt s = (if b then stmt s else Some s)"

definition block :: "('s \<Rightarrow> 's option) list \<Rightarrow> 's \<Rightarrow> 's option" where
  "block stmts s = loop (\<lambda>stmt. stmt) stmts s"

text \<open>An update of one array of the object.\<close>

definition on_eng_vdwl :: "(real list \<Rightarrow> real list option) \<Rightarrow> ThrOMP \<Rightarrow> ThrOMP option" where
  "on_eng_vdwl f s = map_option (\<lambda>a. s\<lparr>eng_vdwl_thr := a\<rparr>) (f (eng_vdwl_thr s))"

definition on_eng_coul :: "(real list \<Rightarrow> real list option) \<Rightarrow> ThrOMP \<Rightarrow> ThrOMP option" where
  "on_eng_coul f s = map_option (\<lambda>a. s\<lparr>eng_coul_thr := a\<rparr>) (f (eng_coul_thr s))"

definition on_eng_bond :: "(real list \<Rightarrow> real list option) \<Rightarrow> ThrOMP \<Rightarrow> ThrOMP option" where
  "on_eng_bond f s = map_option (\<lambda>a. s\<lparr>eng_bond_thr := a\<rparr>) (f (eng_bond_thr s))"

definition on_virial :: "(real list list \<Rightarrow> real list list option) \<Rightarrow> ThrOMP \<Rightarrow> ThrOMP option" where
  "on_virial f s = map_option (\<lambda>a. s\<lparr>virial_thr := a\<rparr>) (f (virial_thr s))"

definition on_eatom :: "(real list list \<Rightarrow> real list list option) \<Rightarrow> ThrOMP \<Rightarrow> ThrOMP option" where
  "on_eatom f s = map_option (\<lambda>a. s\<lparr>eatom_thr := a\<rparr>) (f (eatom_thr s))"

definition on_vatom ::
  "(real list list list \<Rightarrow> real list list list option) \<Rightarrow> ThrOMP \<Rightarrow> ThrOMP option" where
  "on_vatom f s = map_option (\<lambda>a. s\<lparr>vatom_thr := a\<rparr>) (f (vatom_thr s))"

subsection \<open>\<^verbatim>\<open>ev_setup_thr\<close>\<close>

text \<open>Lines 77 to 85: the per-atom arrays are reallocated if necessary.\<close>

definition ev_grow_thr ::
  "(nat \<Rightarrow> nat \<Rightarrow> nat \<Rightarrow> real) \<Rightarrow> lammps \<Rightarrow> bool \<Rightarrow> bool \<Rightarrow> ThrOMP \<Rightarrow> ThrOMP" where
  "ev_grow_thr mem lmp eflag_atom vflag_atom s =
     (let s1 = (if eflag_atom \<and> nmax lmp > maxeatom_thr s
                then (let s' = s\<lparr>maxeatom_thr := nmax lmp\<rparr>
                      in s'\<lparr>eatom_thr := grow2 mem (nthreads lmp) (maxeatom_thr s')\<rparr>)
                else s)
      in (if vflag_atom \<and> nmax lmp > maxvatom_thr s1
          then (let s' = s1\<lparr>maxvatom_thr := nmax lmp\<rparr>
                in s'\<lparr>vatom_thr := grow3 mem (nthreads lmp) (maxeatom_thr s') 6\<rparr>)
          else s1))"

text \<open>Lines 104 to 126: the body of the loop over the threads.\<close>

definition ev_zero_thread ::
  "bool \<Rightarrow> bool \<Rightarrow> bool \<Rightarrow> bool \<Rightarrow> nat \<Rightarrow> nat \<Rightarrow> ThrOMP \<Rightarrow> ThrOMP option" where
  "ev_zero_thread eflag_global vflag_global eflag_atom vflag_atom ntotal t =
     block
      [if_then eflag_global
         (block [on_eng_bond (modify t (store 0)),
                 on_eng_coul (modify t (store 0)),
                 on_eng_vdwl (modify t (store 0))]),
       if_then vflag_global
         (loop (\<lambda>i. on_virial (modify t (modify i (store 0)))) [0..<6]),
       if_then eflag_atom
         (loop (\<lambda>i. on_eatom (modify t (modify i (store 0)))) [0..<ntotal]),
       if_then vflag_atom
         (loop (\<lambda>i. loop (\<lambda>k. on_vatom (modify t (modify i (modify k (store 0)))))
                        [0, 1, 2, 3, 4, 5])
               [0..<ntotal])]"

definition ev_ntotal :: "lammps \<Rightarrow> bool \<Rightarrow> nat" where
  "ev_ntotal lmp newton' = (if newton' then nlocal lmp + nghost lmp else nlocal lmp)"

definition ev_setup_thr ::
  "(nat \<Rightarrow> nat \<Rightarrow> nat \<Rightarrow> real) \<Rightarrow> lammps \<Rightarrow> bool \<Rightarrow> bool \<Rightarrow> bool \<Rightarrow> bool \<Rightarrow> ThrOMP
     \<Rightarrow> ThrOMP option" where
  "ev_setup_thr mem lmp eflag_global vflag_global eflag_atom vflag_atom s =
     (let s' = ev_grow_thr mem lmp eflag_atom vflag_atom s;
          newton' = (case thr_style s' of PAIR \<Rightarrow> newton lmp | DIHEDRAL \<Rightarrow> newton_bond lmp);
          ntotal = ev_ntotal lmp newton'
      in loop (ev_zero_thread eflag_global vflag_global eflag_atom vflag_atom ntotal)
           [0..<nthreads lmp] s')"

subsection \<open>\<^verbatim>\<open>ev_tally_thr\<close>\<close>






subsection \<open>\<^verbatim>\<open>ev_reduce_thr\<close>\<close>

text \<open>
  The members of \<^verbatim>\<open>Pair\<close> and of \<^verbatim>\<open>Dihedral\<close> that the reduction reads and writes
  (the classes are declared in \<^verbatim>\<open>pair.h\<close> and \<^verbatim>\<open>dihedral.h\<close>, which are not among
  the sources: the fields are the members that the code names). Both classes have the
  flags and the virial and per-atom arrays.
\<close>

record ev_target =
  vflag_either :: bool
  vflag_atom :: bool
  eflag_atom :: bool
  virial :: "real list"
  eatom :: "real list"
  vatom :: "real list list"











subsection \<open>\<^verbatim>\<open>force_reduce_thr\<close>\<close>




subsection \<open>Auxiliary notions for the statements\<close>

text \<open>The list \<open>xs\<close> with \<open>f\<close> applied to its first \<open>n\<close> entries.\<close>

definition on_first :: "nat \<Rightarrow> ('a \<Rightarrow> 'a) \<Rightarrow> 'a list \<Rightarrow> 'a list" where
  "on_first n f xs = map f (take n xs) @ drop n xs"







text \<open>Concrete collaborators used in the examples below.\<close>

definition mem0 :: "nat \<Rightarrow> nat \<Rightarrow> nat \<Rightarrow> real" where
  "mem0 t i k = 7"

definition lmp1 :: lammps where
  "lmp1 = \<lparr>nthreads = 1, nmax = 4, nlocal = 4, nghost = 0, newton = True, newton_bond = True\<rparr>"

definition lmp2 :: lammps where
  "lmp2 = \<lparr>nthreads = 2, nmax = 4, nlocal = 2, nghost = 1, newton = True, newton_bond = False\<rparr>"









section \<open>Properties\<close>

subsection \<open>Arrays and loops\<close>

lemma length_on_first [simp]: "length (on_first n f xs) = length xs"
  by (simp add: on_first_def)


lemma on_first_0 [simp]: "on_first 0 f xs = xs"
  by (simp add: on_first_def)















subsection \<open>Zeroing in \<^verbatim>\<open>ev_setup_thr\<close>\<close>








subsection \<open>Increments\<close>




















subsection \<open>The two halves of \<^verbatim>\<open>ev_tally_thr\<close>\<close>









subsection \<open>The reduction of energies and virials\<close>












subsection \<open>The reduction of the forces\<close>















subsection \<open>The loop partition\<close>









subsection \<open>The memory report\<close>

text \<open>
  Claim C10, as stated, counts \<open>3 + 6\<close> doubles of fixed storage per thread. For one
  thread without per-atom storage that is 72 bytes; the code reports \<open>(3 + 7) * 8 = 80\<close>.
\<close>

theorem memory_usage_thr_nine_counterexample:
  "memory_usage_thr lmp1 (ThrOMP_new mem0 lmp1 PAIR)
     \<noteq> Some (real (nthreads lmp1 * (3 + 6) * sizeof_double)
            + real (nthreads lmp1 * maxeatom_thr (ThrOMP_new mem0 lmp1 PAIR) * sizeof_double)
            + real (nthreads lmp1 * maxvatom_thr (ThrOMP_new mem0 lmp1 PAIR) * 6 * sizeof_double))"
  by (simp add: memory_usage_thr_def int_mul_def lmp1_def ThrOMP_new_def sizeof_double_def)

text \<open>
  Claim C10, amended: the report is \<open>nthreads * (3 + 7) * sizeof(double)\<close> for the fixed
  storage, plus \<open>nthreads * maxeatom_thr * sizeof(double)\<close>, plus
  \<open>nthreads * maxvatom_thr * 6 * sizeof(double)\<close>, whenever the int products do not
  overflow.
\<close>

theorem memory_usage_thr_bytes:
  assumes "nthreads lmp * (3 + 7) < 2 ^ 31"
    and "nthreads lmp * maxeatom_thr s < 2 ^ 31"
    and "nthreads lmp * maxvatom_thr s * 6 < 2 ^ 31"
  shows "memory_usage_thr lmp s
     = Some (real (nthreads lmp * (3 + 7) * sizeof_double)
            + real (nthreads lmp * maxeatom_thr s * sizeof_double)
            + real (nthreads lmp * maxvatom_thr s * 6 * sizeof_double))"
proof -
  have "nthreads lmp * maxvatom_thr s \<le> nthreads lmp * maxvatom_thr s * 6" by simp
  then have "nthreads lmp * maxvatom_thr s < 2 ^ 31" using assms(3) by linarith
  then show ?thesis
    using assms by (simp add: memory_usage_thr_def int_mul_def)
qed

text \<open>Claim C10, instance: two threads, capacities 4 and 5.\<close>

theorem memory_usage_thr_bytes_witness:
  "memory_usage_thr lmp2 ((ThrOMP_new mem0 lmp2 PAIR)\<lparr>maxeatom_thr := 4, maxvatom_thr := 5\<rparr>)
     = Some 704"
  using memory_usage_thr_bytes [of lmp2 "(ThrOMP_new mem0 lmp2 PAIR)\<lparr>maxeatom_thr := 4, maxvatom_thr := 5\<rparr>"]
  by (simp add: lmp2_def ThrOMP_new_def sizeof_double_def)

subsection \<open>Growth of the per-atom arrays\<close>

text \<open>
  Claim C1 on the code: a fresh object for one thread, per-atom virial requested without
  per-atom energy, \<open>nmax = 4\<close>. The virial high-water mark becomes 4, but the array is
  grown to the extent \<^verbatim>\<open>maxeatom_thr\<close>, which is still 0: the row of the one thread has
  no entries.
\<close>

theorem ev_grow_thr_vatom_extent:
  "maxvatom_thr (ev_grow_thr mem0 lmp1 False True (ThrOMP_new mem0 lmp1 PAIR)) = 4
   \<and> map length (vatom_thr (ev_grow_thr mem0 lmp1 False True (ThrOMP_new mem0 lmp1 PAIR))) = [0]"
  by (simp add: ev_grow_thr_def ThrOMP_new_def lmp1_def grow3_def Let_def)

text \<open>
  Claim C2 on the code: in the same situation (\<open>ntotal = 4 \<le> nmax\<close>) the zeroing loop of
  \<^verbatim>\<open>ev_setup_thr\<close> itself writes \<^verbatim>\<open>vatom_thr[0][0][0]\<close> outside of the storage.
\<close>

theorem ev_setup_thr_vatom_out_of_bounds:
  "nlocal lmp1 + nghost lmp1 \<le> nmax lmp1
   \<and> ev_setup_thr mem0 lmp1 False False False True (ThrOMP_new mem0 lmp1 PAIR) = None"
  by code_simp

subsection \<open>What \<^verbatim>\<open>ev_setup_thr\<close> zeroes\<close>

lemma on_first_id [simp]: "on_first n (\<lambda>x. x) xs = xs"
  by (simp add: on_first_def)




subsection \<open>What \<^verbatim>\<open>ev_tally_thr\<close> adds\<close>






subsection \<open>What \<^verbatim>\<open>ev_reduce_thr\<close> adds\<close>



subsection \<open>What the team leaves in the force array\<close>





end
